theory Spec2Isabelle
  imports Main
begin

section \<open>The orchestrator of the image browser (class Core)\<close>

text \<open>
  A shallow embedding of the controller in \<^verbatim>\<open>src/unnamed/part_000\<close> (class \<^verbatim>\<open>Core\<close>).
  Every slot of the class becomes a function on the record \<open>Core\<close> of its members.
  Calls into the window, the viewer, the loader, the scaler and the timer have no
  result the controller reads back, so they are recorded, in order, in the list
  \<open>effects\<close>. A dereference of a null pointer ends the run with an error value.
  C++ \<^verbatim>\<open>int\<close> is modelled by \<open>int\<close>: indices stay within the size of a directory,
  and signed overflow has no defined result in C++.
\<close>

subsection \<open>Images\<close>

datatype ImageType = STATIC | ANIMATED | VIDEO

text \<open>
  Decoded pixel data. The decoder and \<^verbatim>\<open>ImageLib::scale\<close>, \<^verbatim>\<open>ImageLib::rotate\<close> are
  opaque pure functions of the program; their results are kept as terms.
\<close>

type_synonym QSize = "int \<times> int"

datatype Pixels =
    Decoded string
  | Scaled Pixels QSize int
  | Rotated Pixels int

text \<open>
  Modelled from the spec: class \<^verbatim>\<open>Image\<close>, which is not under \<^verbatim>\<open>src/\<close>. An image has a name key, a kind, pixel dimensions, the size of its file, and an edited
  variant that replaces the decoded content. \<^verbatim>\<open>img->type()\<close> and
  \<^verbatim>\<open>img->info()->imageType()\<close> both read the kind.
\<close>

record Image =
  name :: string
  imageType :: ImageType
  width :: int
  height :: int
  fileSize :: int
  decoded :: Pixels
  editedImage :: "Pixels option"

definition getImage :: "Image \<Rightarrow> Pixels" where
  "getImage img = (case editedImage img of None \<Rightarrow> decoded img | Some p \<Rightarrow> p)"

definition getPixmap :: "Image \<Rightarrow> Pixels" where
  "getPixmap img = getImage img"

definition setEditedImage :: "Pixels \<Rightarrow> Image \<Rightarrow> Image" where
  "setEditedImage p img = img\<lparr>editedImage := Some p\<rparr>"

subsection \<open>The cache\<close>

text \<open>
  Modelled from the spec: class \<^verbatim>\<open>Cache\<close>, which is not under \<^verbatim>\<open>src/\<close>. It maps a file name to an image with a reservation count, and has a lock.
  \<open>insert\<close> succeeds only on an absent key; \<open>reserve\<close> succeeds only on a present
  key and increments the count; \<open>release\<close> decrements it; \<open>trimTo\<close> evicts every
  entry whose key is not in the list and whose count is 0.
\<close>

record CacheEntry =
  entryImage :: Image
  reservations :: nat

record Cache =
  entries :: "string \<rightharpoonup> CacheEntry"
  locked :: bool

definition cache_lock :: "Cache \<Rightarrow> Cache" where
  "cache_lock c = c\<lparr>locked := True\<rparr>"

definition cache_unlock :: "Cache \<Rightarrow> Cache" where
  "cache_unlock c = c\<lparr>locked := False\<rparr>"

definition cache_contains :: "Cache \<Rightarrow> string \<Rightarrow> bool" where
  "cache_contains c k = (entries c k \<noteq> None)"

definition cache_get :: "Cache \<Rightarrow> string \<Rightarrow> Image option" where
  "cache_get c k = map_option entryImage (entries c k)"

definition cache_insert :: "string \<Rightarrow> Image \<Rightarrow> Cache \<Rightarrow> bool \<times> Cache" where
  "cache_insert k img c =
     (case entries c k of
        None \<Rightarrow> (True, c\<lparr>entries := (entries c)(k \<mapsto> \<lparr>entryImage = img, reservations = 0\<rparr>)\<rparr>)
      | Some e \<Rightarrow> (False, c))"

definition cache_reserve :: "string \<Rightarrow> Cache \<Rightarrow> bool \<times> Cache" where
  "cache_reserve k c =
     (case entries c k of
        None \<Rightarrow> (False, c)
      | Some e \<Rightarrow> (True, c\<lparr>entries := (entries c)(k \<mapsto> e\<lparr>reservations := Suc (reservations e)\<rparr>)\<rparr>))"

definition cache_release :: "string \<Rightarrow> Cache \<Rightarrow> Cache" where
  "cache_release k c =
     (case entries c k of
        None \<Rightarrow> c
      | Some e \<Rightarrow> c\<lparr>entries := (entries c)(k \<mapsto> e\<lparr>reservations := reservations e - 1\<rparr>)\<rparr>)"

definition cache_trimTo :: "string list \<Rightarrow> Cache \<Rightarrow> Cache" where
  "cache_trimTo keep c =
     c\<lparr>entries := (\<lambda>k. case entries c k of
                          None \<Rightarrow> None
                        | Some e \<Rightarrow> if k \<in> set keep \<or> 0 < reservations e then Some e else None)\<rparr>"

text \<open>The image of an entry is edited in place through the pointer \<open>get\<close> returned.\<close>

definition cache_edit :: "string \<Rightarrow> (Image \<Rightarrow> Image) \<Rightarrow> Cache \<Rightarrow> Cache" where
  "cache_edit k f c =
     (case entries c k of
        None \<Rightarrow> c
      | Some e \<Rightarrow> c\<lparr>entries := (entries c)(k \<mapsto> e\<lparr>entryImage := f (entryImage e)\<rparr>)\<rparr>)"

subsection \<open>The directory collaborator\<close>

text \<open>
  Class \<^verbatim>\<open>DirectoryManager\<close> is not under \<^verbatim>\<open>src/\<close>, and the controller only asks
  it questions. It is a parameter of the model: the record of its answers.
  No property of the answers is assumed unless a theorem states it.
\<close>

record DirectoryManager =
  fileCount :: int
  fileNameAt :: "int \<Rightarrow> string"
  filePathAt :: "int \<Rightarrow> string"
  indexOf :: "string \<Rightarrow> int"
  hasImages :: bool
  checkRange :: "int \<Rightarrow> bool"

subsection \<open>Requests to the scaler, and what the controller does to the outside\<close>

text \<open>
  One event for each call that leaves the controller: \<open>ShowMessage\<close>,
  \<open>ShowMessageDirectoryStart\<close>, \<open>ShowMessageDirectoryEnd\<close> and \<open>SetInfoString\<close> go
  to the main window; \<open>ShowImage\<close>, \<open>ShowAnimation\<close>, \<open>ShowVideo\<close>, \<open>CloseImage\<close>
  and \<open>UpdateFrame\<close> to the viewer; \<open>ShowGui\<close> is the call of \<^verbatim>\<open>showGui\<close>;
  \<open>ImageIndexChanged\<close> is the signal of that name; \<open>LoaderLoad\<close>,
  \<open>LoaderLoadExclusive\<close> and \<open>LoaderLoadBlocking\<close> are the three submissions to the
  loader; \<open>DeleteImage\<close> and \<open>DeletePixmap\<close> are the \<^verbatim>\<open>delete\<close> of an image and of a
  scaled pixmap; \<open>DebugLog\<close> is a line written with \<^verbatim>\<open>qDebug\<close>.
\<close>

record ScalerRequest =
  image :: Image
  size_r :: QSize
  string :: string

datatype Event =
    ShowMessage string
  | ShowMessageDirectoryStart
  | ShowMessageDirectoryEnd
  | SetInfoString string
  | ShowImage Pixels
  | ShowAnimation Pixels
  | ShowVideo Pixels
  | CloseImage
  | ShowGui
  | UpdateFrame Pixels
  | ImageIndexChanged int
  | LoadingTimerStart
  | LoadingTimerStop
  | LoaderLoad string
  | LoaderLoadExclusive string
  | LoaderLoadBlocking string
  | RequestScaled ScalerRequest
  | DeleteImage Image
  | DeletePixmap Pixels
  | DebugLog string

datatype error = NullDereference | UseAfterDelete

subsection \<open>The members of Core\<close>

record State =
  currentIndex :: int
  hasActiveImage :: bool
  isWaitingForLoader :: bool
  displayingFileName :: string

text \<open>
  The members the slots read or write. The settings object is global in the source; the
  flag \<^verbatim>\<open>usePreloader\<close> that \<^verbatim>\<open>preload\<close> asks it for is kept with the members.
\<close>

record Core =
  state :: State
  cache :: Cache
  dirManager :: DirectoryManager
  infiniteScrolling :: bool
  usePreloader :: bool
  effects :: "Event list"

definition emit :: "Event \<Rightarrow> Core \<Rightarrow> Core" where
  "emit e s = s\<lparr>effects := effects s @ [e]\<rparr>"

text \<open>The events a run from \<open>s\<close> to \<open>s'\<close> has added.\<close>

definition emitted :: "Core \<Rightarrow> Core \<Rightarrow> Event list" where
  "emitted s s' = drop (length (effects s)) (effects s')"

definition andThen :: "error + 'a \<Rightarrow> ('a \<Rightarrow> error + 'b) \<Rightarrow> error + 'b" where
  "andThen r f = (case r of Inl e \<Rightarrow> Inl e | Inr x \<Rightarrow> f x)"

subsection \<open>Scaling\<close>

definition scalingRequest :: "QSize \<Rightarrow> Core \<Rightarrow> Core" where
  "scalingRequest sz s =
     (if hasActiveImage (state s) \<and> \<not> isWaitingForLoader (state s) then
        (let s1 = s\<lparr>cache := cache_lock (cache s)\<rparr>;
             forScale = cache_get (cache s1) (fileNameAt (dirManager s1) (currentIndex (state s1)));
             s2 = (case forScale of
                     None \<Rightarrow> s1
                   | Some img \<Rightarrow>
                       (let path = filePathAt (dirManager s1) (currentIndex (state s1))
                        in emit (RequestScaled \<lparr>image = img, size_r = sz, string = path\<rparr>) s1))
         in s2\<lparr>cache := cache_unlock (cache s2)\<rparr>)
      else s)"

definition onScalingFinished :: "Pixels \<Rightarrow> ScalerRequest \<Rightarrow> Core \<Rightarrow> Core" where
  "onScalingFinished scaled req s =
     (if hasActiveImage (state s) \<and>
         filePathAt (dirManager s) (currentIndex (state s)) = string req
      then emit (UpdateFrame scaled) s
      else emit (DeletePixmap scaled) s)"

subsection \<open>Strings of the window (QString)\<close>

text \<open>
  \<^verbatim>\<open>QString::number\<close> prints an integer in base 10; \<^verbatim>\<open>left(n)\<close> and \<^verbatim>\<open>right(n)\<close>
  are the \<open>n\<close> leading and trailing characters, the whole string when it has at most
  \<open>n\<close> characters.
\<close>

fun natDigits :: "nat \<Rightarrow> string" where
  "natDigits n =
     (if n < 10 then [''0123456789'' ! n]
      else natDigits (n div 10) @ [''0123456789'' ! (n mod 10)])"

declare natDigits.simps [simp del]

definition QString_number :: "int \<Rightarrow> string" where
  "QString_number i = (if i < 0 then CHR ''-'' # natDigits (nat (- i)) else natDigits (nat i))"

definition QString_left :: "nat \<Rightarrow> string \<Rightarrow> string" where
  "QString_left n str = (if length str \<le> n then str else take n str)"

definition QString_right :: "nat \<Rightarrow> string \<Rightarrow> string" where
  "QString_right n str = (if length str \<le> n then str else drop (length str - n) str)"

subsection \<open>The info string\<close>

definition updateInfoString :: "Core \<Rightarrow> error + Core" where
  "updateInfoString s =
     (let infoString =
            ''[ '' @ QString_number (currentIndex (state s) + 1) @ '' / '' @
            QString_number (fileCount (dirManager s)) @ '' ]   ''
      in if \<not> isWaitingForLoader (state s) then
           (case cache_get (cache s) (fileNameAt (dirManager s) (currentIndex (state s))) of
              None \<Rightarrow> Inl NullDereference
            | Some img \<Rightarrow>
                (let fullName = name img;
                     shown = (if length fullName > 95
                              then QString_left 95 fullName @ '' (...) '' @ QString_right 12 fullName
                              else fullName);
                     infoString1 = infoString @ (shown @ ''  '');
                     infoString2 = infoString1 @
                       (''('' @ QString_number (width img) @ '' x '' @
                        QString_number (height img) @ ''  '');
                     infoString3 = infoString2 @ (QString_number (fileSize img) @ '' KB)'')
                 in Inr (emit (SetInfoString infoString3) s)))
         else Inr (emit (SetInfoString infoString) s))"

subsection \<open>Trimming the cache, starting a load, preloading\<close>

definition trimCache :: "Core \<Rightarrow> Core" where
  "trimCache s =
     (let list = [fileNameAt (dirManager s) (currentIndex (state s) - 1),
                  fileNameAt (dirManager s) (currentIndex (state s)),
                  fileNameAt (dirManager s) (currentIndex (state s) + 1)]
      in s\<lparr>cache := cache_unlock (cache_trimTo list (cache_lock (cache s)))\<rparr>)"

definition onLoadStarted :: "Core \<Rightarrow> error + Core" where
  "onLoadStarted s =
     andThen (updateInfoString (s\<lparr>state := (state s)\<lparr>isWaitingForLoader := True\<rparr>\<rparr>))
       (\<lambda>s1. Inr (trimCache (emit LoadingTimerStart s1)))"

definition preload :: "int \<Rightarrow> Core \<Rightarrow> Core" where
  "preload index s =
     (if usePreloader s \<and> checkRange (dirManager s) index \<and>
         \<not> cache_contains (cache s) (fileNameAt (dirManager s) index)
      then emit (LoaderLoad (filePathAt (dirManager s) index)) s
      else s)"

subsection \<open>Displaying an image\<close>

definition displayImage :: "Image option \<Rightarrow> Core \<Rightarrow> error + Core" where
  "displayImage imgp s =
     (let s1 = emit LoadingTimerStop s;
          s2 = s1\<lparr>state := (state s1)\<lparr>isWaitingForLoader := False, hasActiveImage := True\<rparr>\<rparr>
      in case imgp of
           Some img \<Rightarrow>
             (let s3 = (case imageType img of
                          STATIC \<Rightarrow> emit (ShowImage (getPixmap img)) s2
                        | ANIMATED \<Rightarrow> emit (ShowAnimation (decoded img)) s2
                        | VIDEO \<Rightarrow> emit (ShowVideo (decoded img)) (emit ShowGui (emit CloseImage s2)));
                  s4 = s3\<lparr>state := (state s3)\<lparr>displayingFileName := name img\<rparr>\<rparr>;
                  s5 = emit (ImageIndexChanged (currentIndex (state s4))) s4
              in updateInfoString s5)
         | None \<Rightarrow> Inr (emit (ShowMessage ''Error: could not load image.'') s2))"

subsection \<open>Completion of a load\<close>

text \<open>
  The local pointer \<^verbatim>\<open>img\<close> of \<^verbatim>\<open>onLoadFinished\<close> after the cache was asked: it points
  to an image (or is null, as \<open>get\<close> may return), or the image it pointed to was deleted.
\<close>

datatype ImagePtr = Live "Image option" | Dangling

definition onLoadFinished :: "Image option \<Rightarrow> Core \<Rightarrow> error + Core" where
  "onLoadFinished imgp s =
     (case imgp of
        None \<Rightarrow> Inl NullDereference
      | Some img \<Rightarrow>
          (let index = indexOf (dirManager s) (name img);
               isRelevant = \<not> (index < currentIndex (state s) - 1 \<or>
                                index > currentIndex (state s) + 1);
               nameKey = fileNameAt (dirManager s) index;
               (ptr, s1) =
                 (if isRelevant then
                    (case cache_insert nameKey img (cache s) of
                       (True, c) \<Rightarrow> (Live (Some img), s\<lparr>cache := c\<rparr>)
                     | (False, c) \<Rightarrow>
                         (Live (cache_get c nameKey), emit (DeleteImage img) (s\<lparr>cache := c\<rparr>)))
                  else (Dangling, emit (DeleteImage img) s))
           in if index = currentIndex (state s1) then
                (case ptr of
                   Live p \<Rightarrow> displayImage p s1
                 | Dangling \<Rightarrow> Inl UseAfterDelete)
              else Inr s1))"

subsection \<open>Navigation\<close>

definition loadByIndex :: "int \<Rightarrow> Core \<Rightarrow> error + (bool \<times> Core)" where
  "loadByIndex index s =
     (if index \<ge> 0 \<and> index < fileCount (dirManager s) then
        andThen (onLoadStarted (s\<lparr>state := (state s)\<lparr>currentIndex := index\<rparr>\<rparr>))
          (\<lambda>s1. let nameKey = fileNameAt (dirManager s1) (currentIndex (state s1))
                in andThen
                     (if cache_contains (cache s1) nameKey
                      then displayImage (cache_get (cache s1) nameKey) s1
                      else Inr (emit (LoaderLoadExclusive
                                  (filePathAt (dirManager s1) (currentIndex (state s1)))) s1))
                     (\<lambda>s2. Inr (True, s2)))
      else Inr (False, s))"


text \<open>
  In \<^verbatim>\<open>slotNextImage\<close> and \<^verbatim>\<open>slotPrevImage\<close> the target index is \<open>None\<close> where the
  source shows the boundary message and returns.
\<close>

definition slotNextImage :: "Core \<Rightarrow> error + Core" where
  "slotNextImage s =
     (if hasImages (dirManager s) then
        (let index0 = currentIndex (state s) + 1;
             target = (if index0 \<ge> fileCount (dirManager s)
                       then (if infiniteScrolling s then Some 0 else None)
                       else Some index0)
         in case target of
              None \<Rightarrow> Inr (emit ShowMessageDirectoryEnd s)
            | Some index \<Rightarrow>
                andThen (onLoadStarted (s\<lparr>state := (state s)\<lparr>currentIndex := index\<rparr>\<rparr>))
                  (\<lambda>s1. let nameKey = fileNameAt (dirManager s1) (currentIndex (state s1))
                        in andThen
                             (if cache_contains (cache s1) nameKey
                              then displayImage (cache_get (cache s1) nameKey) s1
                              else Inr (emit (LoaderLoadExclusive
                                          (filePathAt (dirManager s1) (currentIndex (state s1)))) s1))
                             (\<lambda>s2. Inr (preload (index + 1) s2))))
      else Inr s)"

definition slotPrevImage :: "Core \<Rightarrow> error + Core" where
  "slotPrevImage s =
     (if hasImages (dirManager s) then
        (let index0 = currentIndex (state s) - 1;
             target = (if index0 < 0
                       then (if infiniteScrolling s then Some (fileCount (dirManager s) - 1) else None)
                       else Some index0)
         in case target of
              None \<Rightarrow> Inr (emit ShowMessageDirectoryStart s)
            | Some index \<Rightarrow>
                andThen (onLoadStarted (s\<lparr>state := (state s)\<lparr>currentIndex := index\<rparr>\<rparr>))
                  (\<lambda>s1. let nameKey = fileNameAt (dirManager s1) (currentIndex (state s1))
                        in andThen
                             (if cache_contains (cache s1) nameKey
                              then displayImage (cache_get (cache s1) nameKey) s1
                              else Inr (emit (LoaderLoadExclusive
                                          (filePathAt (dirManager s1) (currentIndex (state s1)))) s1))
                             (\<lambda>s2. Inr (preload (index - 1) s2))))
      else Inr s)"

subsection \<open>Editing the current image\<close>

definition resize :: "QSize \<Rightarrow> Core \<Rightarrow> error + Core" where
  "resize sz s =
     (if currentIndex (state s) \<ge> 0 then
        (let nameKey = fileNameAt (dirManager s) (currentIndex (state s));
             c1 = cache_lock (cache s)
         in case cache_reserve nameKey c1 of
              (True, c2) \<Rightarrow>
                (let img = cache_get c2 nameKey
                 in if (case img of None \<Rightarrow> False | Some i \<Rightarrow> imageType i = STATIC) then
                      (let c3 = cache_edit nameKey
                                  (\<lambda>i. setEditedImage (Scaled (getImage i) sz 1) i) c2;
                           c4 = cache_unlock (cache_release nameKey c3)
                       in displayImage (cache_get c4 nameKey) (s\<lparr>cache := c4\<rparr>))
                    else
                      Inr (emit (ShowMessage ''Editing gifs/video is unsupported.'')
                             (s\<lparr>cache := cache_unlock (cache_release nameKey c2)\<rparr>)))
            | (False, c2) \<Rightarrow>
                Inr (emit (DebugLog ''Core::resize() - could not lock cache object.'')
                       (s\<lparr>cache := cache_unlock c2\<rparr>)))
      else Inr s)"

definition rotateByDegrees :: "int \<Rightarrow> Core \<Rightarrow> error + Core" where
  "rotateByDegrees degrees s =
     (if currentIndex (state s) \<ge> 0 then
        (let nameKey = fileNameAt (dirManager s) (currentIndex (state s));
             c1 = cache_lock (cache s)
         in case cache_reserve nameKey c1 of
              (True, c2) \<Rightarrow>
                (let img = cache_get c2 nameKey
                 in if (case img of None \<Rightarrow> False | Some i \<Rightarrow> imageType i = STATIC) then
                      (let c3 = cache_edit nameKey
                                  (\<lambda>i. setEditedImage (Rotated (getImage i) degrees) i) c2;
                           c4 = cache_unlock (cache_release nameKey c3)
                       in displayImage (cache_get c4 nameKey) (s\<lparr>cache := c4\<rparr>))
                    else
                      Inr (emit (ShowMessage ''Editing gifs/video is unsupported.'')
                             (s\<lparr>cache := cache_unlock (cache_release nameKey c2)\<rparr>)))
            | (False, c2) \<Rightarrow>
                Inr (emit (DebugLog ''Core::rotateByDegrees() - could not lock cache object.'')
                       (s\<lparr>cache := cache_unlock c2\<rparr>)))
      else Inr s)"

subsection \<open>A directory and a cache for the concrete examples\<close>

text \<open>
  Modelled from the spec: class \<^verbatim>\<open>DirectoryManager\<close>, which is not under \<^verbatim>\<open>src/\<close>;
  this is the directory of the examples only. It lists file names in order under the path \<^verbatim>\<open>/dir\<close>. An index
  out of range has the empty name and path, and a name that is not listed has index
  \<open>-1\<close> (\<^verbatim>\<open>forwardThumbnail\<close> tests \<^verbatim>\<open>index >= 0\<close>).
\<close>

fun firstIndex :: "string list \<Rightarrow> string \<Rightarrow> int" where
  "firstIndex [] n = - 1"
| "firstIndex (f # fs) n =
     (if f = n then 0 else (let r = firstIndex fs n in if r < 0 then r else r + 1))"

definition listing :: "string list \<Rightarrow> DirectoryManager" where
  "listing fs =
     \<lparr>fileCount = int (length fs),
      fileNameAt = (\<lambda>i. if 0 \<le> i \<and> i < int (length fs) then fs ! nat i else []),
      filePathAt = (\<lambda>i. if 0 \<le> i \<and> i < int (length fs) then ''/dir/'' @ fs ! nat i else []),
      indexOf = firstIndex fs,
      hasImages = (fs \<noteq> []),
      checkRange = (\<lambda>i. 0 \<le> i \<and> i < int (length fs))\<rparr>"

definition threeFiles :: DirectoryManager where
  "threeFiles = listing [''a.png'', ''b.gif'', ''c.png'']"

definition imageA :: Image where
  "imageA = \<lparr>name = ''a.png'', imageType = STATIC, width = 640, height = 480, fileSize = 12,
             decoded = Decoded ''/dir/a.png'', editedImage = None\<rparr>"

definition imageB :: Image where
  "imageB = \<lparr>name = ''b.gif'', imageType = ANIMATED, width = 32, height = 32, fileSize = 3,
             decoded = Decoded ''/dir/b.gif'', editedImage = None\<rparr>"

definition imageC :: Image where
  "imageC = \<lparr>name = ''c.png'', imageType = STATIC, width = 800, height = 600, fileSize = 45,
             decoded = Decoded ''/dir/c.png'', editedImage = None\<rparr>"

definition emptyCache :: Cache where
  "emptyCache = \<lparr>entries = Map.empty, locked = False\<rparr>"

text \<open>The controller on a directory, at index \<open>i\<close> with a given cache, nothing emitted yet.\<close>

definition coreAt :: "DirectoryManager \<Rightarrow> Cache \<Rightarrow> int \<Rightarrow> Core" where
  "coreAt d c i =
     \<lparr>state = \<lparr>currentIndex = i, hasActiveImage = True, isWaitingForLoader = False,
               displayingFileName = fileNameAt d i\<rparr>,
      cache = c, dirManager = d, infiniteScrolling = False, usePreloader = True,
      effects = []\<rparr>"

text \<open>The controller while a load for index \<open>i\<close> is under way, and a cache given by its entries.\<close>

definition loadingAt :: "DirectoryManager \<Rightarrow> Cache \<Rightarrow> int \<Rightarrow> Core" where
  "loadingAt d c i =
     (coreAt d c i)\<lparr>state := \<lparr>currentIndex = i, hasActiveImage = False,
                                isWaitingForLoader = True, displayingFileName = []\<rparr>\<rparr>"

definition cacheOf :: "(string \<times> CacheEntry) list \<Rightarrow> Cache" where
  "cacheOf xs = \<lparr>entries = map_of xs, locked = False\<rparr>"

text \<open>The first image as an earlier load has left it in the cache, rotated since.\<close>

definition imageA_rotated :: Image where
  "imageA_rotated = imageA\<lparr>editedImage := Some (Rotated (Decoded ''/dir/a.png'') 90)\<rparr>"

subsection \<open>Auxiliary notions for the statements\<close>

text \<open>
  A run from \<open>s\<close> to \<open>s'\<close> only adds events, none of them a call of the blocking
  loader, and leaves the directory and the settings alone.
\<close>

definition extends :: "Core \<Rightarrow> Core \<Rightarrow> bool" where
  "extends s s' \<longleftrightarrow>
     (\<exists>es. effects s' = effects s @ es \<and> (\<forall>p. LoaderLoadBlocking p \<notin> set es)) \<and>
     dirManager s' = dirManager s \<and> infiniteScrolling s' = infiniteScrolling s \<and>
     usePreloader s' = usePreloader s"

text \<open>An entry is pinned while its reservation count is positive.\<close>

definition pinned :: "Cache \<Rightarrow> string \<Rightarrow> bool" where
  "pinned c k = (case entries c k of None \<Rightarrow> False | Some e \<Rightarrow> 0 < reservations e)"

text \<open>
  The window of names around index \<open>k\<close> as the specification words it: the names at
  \<open>k - 1\<close>, \<open>k\<close>, \<open>k + 1\<close>, of the valid indices among them only.
\<close>

definition validWindowNames :: "DirectoryManager \<Rightarrow> int \<Rightarrow> string set" where
  "validWindowNames d k =
     set (map (fileNameAt d) (filter (\<lambda>i. 0 \<le> i \<and> i < fileCount d) [k - 1, k, k + 1]))"

text \<open>An image whose file has left the directory while it was being decoded.\<close>

definition ghostImage :: Image where
  "ghostImage = \<lparr>name = ''gone.png'', imageType = STATIC, width = 1, height = 1, fileSize = 1,
                 decoded = Decoded ''/dir/gone.png'', editedImage = None\<rparr>"

text \<open>A cache that holds all three files, the third one reserved once.\<close>

definition cacheABC :: Cache where
  "cacheABC = cacheOf [(''a.png'', \<lparr>entryImage = imageA, reservations = 0\<rparr>),
                       (''b.gif'', \<lparr>entryImage = imageB, reservations = 0\<rparr>),
                       (''c.png'', \<lparr>entryImage = imageC, reservations = 1\<rparr>)]"

text \<open>The events that are messages of the window to the user.\<close>

fun isMessage :: "Event \<Rightarrow> bool" where
  "isMessage (ShowMessage m) = True"
| "isMessage ShowMessageDirectoryStart = True"
| "isMessage ShowMessageDirectoryEnd = True"
| "isMessage e = False"

text \<open>
  The info string as the specification words it, for a 1-based index, the number of
  files, the name as shown, the dimensions and the size.
\<close>

definition specInfoString :: "int \<Rightarrow> int \<Rightarrow> string \<Rightarrow> int \<Rightarrow> int \<Rightarrow> int \<Rightarrow> string" where
  "specInfoString index count shown w h kb =
     ''['' @ QString_number index @ '' / '' @ QString_number count @ '']  '' @ shown @
     ''  ('' @ QString_number w @ '' x '' @ QString_number h @ ''  '' @
     QString_number kb @ ''KB)''"

text \<open>A file with a name of 108 characters, alone in its directory and cached.\<close>

definition longName :: string where
  "longName = ''0123456789012345678901234567890123456789012345678901234567890123456789012345678901234567890123456789_end.png''"

definition imageLong :: Image where
  "imageLong = \<lparr>name = longName, imageType = STATIC, width = 1920, height = 1080,
                fileSize = 2048, decoded = Decoded (''/dir/'' @ longName), editedImage = None\<rparr>"

definition longCore :: Core where
  "longCore = coreAt (listing [longName])
                (cacheOf [(longName, \<lparr>entryImage = imageLong, reservations = 0\<rparr>)]) 0"

section \<open>Basic facts about the steps\<close>

lemma andThen_Inr [simp]: "andThen (Inr x) f = f x"
  by (simp add: andThen_def)

lemma andThen_Inl [simp]: "andThen (Inl e) f = Inl e"
  by (simp add: andThen_def)

lemma emit_fields [simp]:
  "state (emit e s) = state s"
  "cache (emit e s) = cache s"
  "dirManager (emit e s) = dirManager s"
  "infiniteScrolling (emit e s) = infiniteScrolling s"
  "usePreloader (emit e s) = usePreloader s"
  "effects (emit e s) = effects s @ [e]"
  by (simp_all add: emit_def)

lemma emitted_emit [simp]: "emitted s (emit e s) = [e]"
  by (simp add: emitted_def)

lemma trimCache_fields [simp]:
  "state (trimCache s) = state s"
  "dirManager (trimCache s) = dirManager s"
  "infiniteScrolling (trimCache s) = infiniteScrolling s"
  "usePreloader (trimCache s) = usePreloader s"
  "effects (trimCache s) = effects s"
  by (simp_all add: trimCache_def Let_def)

lemma preload_fields [simp]:
  "state (preload i s) = state s"
  "cache (preload i s) = cache s"
  by (simp_all add: preload_def)

lemma extends_refl [simp]: "extends s s"
  by (simp add: extends_def)


lemma extends_trans: "extends s s1 \<Longrightarrow> extends s1 s2 \<Longrightarrow> extends s s2"
  by (auto simp: extends_def)

lemma extends_emit: "(\<And>p. e \<noteq> LoaderLoadBlocking p) \<Longrightarrow> extends s (emit e s)"
  by (auto simp: extends_def)

lemma updateInfoString_Inr:
  "updateInfoString s = Inr s' \<Longrightarrow> \<exists>str. s' = emit (SetInfoString str) s"
  by (auto simp: updateInfoString_def Let_def split: if_splits option.splits)

lemma updateInfoString_waiting:
  "isWaitingForLoader (state s) \<Longrightarrow> \<exists>str. updateInfoString s = Inr (emit (SetInfoString str) s)"
  by (auto simp: updateInfoString_def Let_def)

lemma onLoadStarted_result:
  "\<exists>str. onLoadStarted s =
     Inr (trimCache (emit LoadingTimerStart (emit (SetInfoString str)
            (s\<lparr>state := (state s)\<lparr>isWaitingForLoader := True\<rparr>\<rparr>))))"
proof -
  let ?s1 = "s\<lparr>state := (state s)\<lparr>isWaitingForLoader := True\<rparr>\<rparr>"
  have "isWaitingForLoader (state ?s1)" by simp
  from updateInfoString_waiting [OF this] obtain str
    where "updateInfoString ?s1 = Inr (emit (SetInfoString str) ?s1)" by blast
  then show ?thesis by (auto simp: onLoadStarted_def)
qed

lemma displayImage_None:
  "displayImage None s =
     Inr (emit (ShowMessage ''Error: could not load image.'')
            ((emit LoadingTimerStop s)
               \<lparr>state := (state s)\<lparr>isWaitingForLoader := False, hasActiveImage := True\<rparr>\<rparr>))"
  by (simp add: displayImage_def Let_def)

lemma displayImage_Inr:
  assumes "displayImage p s = Inr s'"
  shows "extends s s' \<and> cache s' = cache s \<and>
         currentIndex (state s') = currentIndex (state s) \<and>
         \<not> isWaitingForLoader (state s') \<and> hasActiveImage (state s')"
proof (cases p)
  case None
  with assms show ?thesis
    by (auto simp: displayImage_None extends_def)
next
  case (Some img)
  with assms obtain s5 where
    s5: "updateInfoString s5 = Inr s'" and
    e5: "extends s s5" and c5: "cache s5 = cache s" and
    i5: "currentIndex (state s5) = currentIndex (state s)" and
    f5: "\<not> isWaitingForLoader (state s5)" "hasActiveImage (state s5)"
    by (cases "imageType img") (auto simp: displayImage_def Let_def extends_def)
  from updateInfoString_Inr [OF s5] obtain str where "s' = emit (SetInfoString str) s5"
    by blast
  with e5 c5 i5 f5 show ?thesis
    by (auto simp: extends_def)
qed

lemma updateInfoString_Inl:
  "updateInfoString s = Inl e \<longleftrightarrow>
     e = NullDereference \<and> \<not> isWaitingForLoader (state s) \<and>
     cache_get (cache s) (fileNameAt (dirManager s) (currentIndex (state s))) = None"
  by (auto simp: updateInfoString_def Let_def split: option.splits)

lemma displayImage_Inl:
  "displayImage p s = Inl e \<longleftrightarrow>
     e = NullDereference \<and> p \<noteq> None \<and>
     cache_get (cache s) (fileNameAt (dirManager s) (currentIndex (state s))) = None"
proof (cases p)
  case None
  then show ?thesis by (simp add: displayImage_None)
next
  case (Some img)
  then show ?thesis
    by (cases "imageType img") (simp_all add: displayImage_def Let_def updateInfoString_Inl)
qed

lemma displayImage_cached:
  assumes "cache_get (cache s) (fileNameAt (dirManager s) (currentIndex (state s))) = Some r"
  shows "\<exists>s'. displayImage p s = Inr s'"
proof (cases "displayImage p s")
  case (Inl e)
  with assms show ?thesis by (simp add: displayImage_Inl)
next
  case (Inr s')
  then show ?thesis by blast
qed

lemma cache_trimCache: "cache (trimCache (emit e s)) = cache (trimCache s)"
  by (simp add: trimCache_def Let_def)

lemma cache_trimCache_state:
  "cache (trimCache (s\<lparr>state := (state s)\<lparr>isWaitingForLoader := b\<rparr>\<rparr>)) = cache (trimCache s)"
  by (simp add: trimCache_def Let_def)

lemma onLoadStarted_Inr:
  "\<exists>s1. onLoadStarted s = Inr s1 \<and> extends s s1 \<and>
        currentIndex (state s1) = currentIndex (state s) \<and>
        cache s1 = cache (trimCache s)"
proof -
  from onLoadStarted_result [of s] obtain str where
    "onLoadStarted s =
       Inr (trimCache (emit LoadingTimerStart (emit (SetInfoString str)
              (s\<lparr>state := (state s)\<lparr>isWaitingForLoader := True\<rparr>\<rparr>))))"
    by blast
  then show ?thesis
    by (simp add: extends_def cache_trimCache cache_trimCache_state)
qed

lemma show_or_load:
  "\<exists>s2. (if cache_contains (cache s1) (fileNameAt (dirManager s1) (currentIndex (state s1)))
         then displayImage (cache_get (cache s1) (fileNameAt (dirManager s1) (currentIndex (state s1)))) s1
         else Inr (emit (LoaderLoadExclusive (filePathAt (dirManager s1) (currentIndex (state s1)))) s1))
        = Inr s2 \<and>
        extends s1 s2 \<and> cache s2 = cache s1 \<and>
        currentIndex (state s2) = currentIndex (state s1)"
proof (cases "cache_contains (cache s1) (fileNameAt (dirManager s1) (currentIndex (state s1)))")
  case True
  then obtain r where
    "cache_get (cache s1) (fileNameAt (dirManager s1) (currentIndex (state s1))) = Some r"
    by (auto simp: cache_contains_def cache_get_def)
  from displayImage_cached [OF this] obtain s2 where
    d: "displayImage (cache_get (cache s1) (fileNameAt (dirManager s1) (currentIndex (state s1)))) s1
          = Inr s2"
    by blast
  from displayImage_Inr [OF d] True d show ?thesis by simp
next
  case False
  then show ?thesis by (simp add: extends_emit)
qed

lemma loadByIndex_in_range:
  assumes "0 \<le> index" "index < fileCount (dirManager s)"
  shows "\<exists>s'. loadByIndex index s = Inr (True, s') \<and> extends s s' \<and>
              currentIndex (state s') = index \<and>
              cache s' = cache (trimCache (s\<lparr>state := (state s)\<lparr>currentIndex := index\<rparr>\<rparr>))"
proof -
  let ?s0 = "s\<lparr>state := (state s)\<lparr>currentIndex := index\<rparr>\<rparr>"
  from onLoadStarted_Inr [of ?s0] obtain s1 where
    s1: "onLoadStarted ?s0 = Inr s1" "extends ?s0 s1"
        "currentIndex (state s1) = index" "cache s1 = cache (trimCache ?s0)"
    by auto
  from show_or_load [of s1] obtain s2 where
    s2: "(if cache_contains (cache s1) (fileNameAt (dirManager s1) (currentIndex (state s1)))
         then displayImage (cache_get (cache s1) (fileNameAt (dirManager s1) (currentIndex (state s1)))) s1
         else Inr (emit (LoaderLoadExclusive (filePathAt (dirManager s1) (currentIndex (state s1)))) s1))
        = Inr s2"
        "extends s1 s2" "cache s2 = cache s1" "currentIndex (state s2) = currentIndex (state s1)"
    by blast
  have "extends s ?s0" by (simp add: extends_def)
  with s1(2) s2(2) have "extends s s2" by (blast intro: extends_trans)
  with assms s1 s2 show ?thesis
    by (simp add: loadByIndex_def Let_def)
qed

lemma extends_preload: "extends s (preload i s)"
  by (simp add: preload_def extends_emit)

lemma navigate_block:
  "\<exists>s'. andThen (onLoadStarted (s\<lparr>state := (state s)\<lparr>currentIndex := index\<rparr>\<rparr>))
          (\<lambda>s1. let nameKey = fileNameAt (dirManager s1) (currentIndex (state s1))
                in andThen
                     (if cache_contains (cache s1) nameKey
                      then displayImage (cache_get (cache s1) nameKey) s1
                      else Inr (emit (LoaderLoadExclusive
                                  (filePathAt (dirManager s1) (currentIndex (state s1)))) s1))
                     (\<lambda>s2. Inr (preload j s2)))
        = Inr s' \<and> extends s s' \<and> currentIndex (state s') = index \<and>
        cache s' = cache (trimCache (s\<lparr>state := (state s)\<lparr>currentIndex := index\<rparr>\<rparr>))"
proof -
  let ?s0 = "s\<lparr>state := (state s)\<lparr>currentIndex := index\<rparr>\<rparr>"
  from onLoadStarted_Inr [of ?s0] obtain s1 where
    s1: "onLoadStarted ?s0 = Inr s1" "extends ?s0 s1"
        "currentIndex (state s1) = index" "cache s1 = cache (trimCache ?s0)"
    by auto
  from show_or_load [of s1] obtain s2 where
    s2: "(if cache_contains (cache s1) (fileNameAt (dirManager s1) (currentIndex (state s1)))
         then displayImage (cache_get (cache s1) (fileNameAt (dirManager s1) (currentIndex (state s1)))) s1
         else Inr (emit (LoaderLoadExclusive (filePathAt (dirManager s1) (currentIndex (state s1)))) s1))
        = Inr s2"
        "extends s1 s2" "cache s2 = cache s1" "currentIndex (state s2) = currentIndex (state s1)"
    by blast
  have "extends s ?s0" by (simp add: extends_def)
  with s1(2) s2(2) extends_preload [of s2 j] have "extends s (preload j s2)"
    by (blast intro: extends_trans)
  with s1 s2 show ?thesis
    by (simp add: Let_def)
qed

lemma slotNextImage_navigates:
  assumes "hasImages (dirManager s)"
    and "currentIndex (state s) + 1 < fileCount (dirManager s) \<or> infiniteScrolling s"
  shows "\<exists>s'. slotNextImage s = Inr s' \<and> extends s s' \<and>
          currentIndex (state s') =
            (if currentIndex (state s) + 1 \<ge> fileCount (dirManager s) then 0
             else currentIndex (state s) + 1) \<and>
          cache s' = cache (trimCache (s\<lparr>state := (state s)\<lparr>currentIndex := currentIndex (state s')\<rparr>\<rparr>))"
proof (cases "currentIndex (state s) + 1 \<ge> fileCount (dirManager s)")
  case True
  with assms have inf: "infiniteScrolling s" by auto
  from navigate_block [where s = s and index = 0 and j = "0 + 1"] obtain s' where
    "andThen (onLoadStarted (s\<lparr>state := (state s)\<lparr>currentIndex := 0\<rparr>\<rparr>))
          (\<lambda>s1. let nameKey = fileNameAt (dirManager s1) (currentIndex (state s1))
                in andThen
                     (if cache_contains (cache s1) nameKey
                      then displayImage (cache_get (cache s1) nameKey) s1
                      else Inr (emit (LoaderLoadExclusive
                                  (filePathAt (dirManager s1) (currentIndex (state s1)))) s1))
                     (\<lambda>s2. Inr (preload (0 + 1) s2)))
        = Inr s'" "extends s s'" "currentIndex (state s') = 0"
      "cache s' = cache (trimCache (s\<lparr>state := (state s)\<lparr>currentIndex := 0\<rparr>\<rparr>))"
    by blast
  with True inf assms(1) show ?thesis
    by (simp add: slotNextImage_def Let_def)
next
  case False
  let ?i = "currentIndex (state s) + 1"
  from navigate_block [where s = s and index = ?i and j = "?i + 1"] obtain s' where
    "andThen (onLoadStarted (s\<lparr>state := (state s)\<lparr>currentIndex := ?i\<rparr>\<rparr>))
          (\<lambda>s1. let nameKey = fileNameAt (dirManager s1) (currentIndex (state s1))
                in andThen
                     (if cache_contains (cache s1) nameKey
                      then displayImage (cache_get (cache s1) nameKey) s1
                      else Inr (emit (LoaderLoadExclusive
                                  (filePathAt (dirManager s1) (currentIndex (state s1)))) s1))
                     (\<lambda>s2. Inr (preload (?i + 1) s2)))
        = Inr s'" "extends s s'" "currentIndex (state s') = ?i"
      "cache s' = cache (trimCache (s\<lparr>state := (state s)\<lparr>currentIndex := ?i\<rparr>\<rparr>))"
    by blast
  with False assms(1) show ?thesis
    by (simp add: slotNextImage_def Let_def)
qed

subsection \<open>Reserving and releasing an entry\<close>

lemma reserve_release:
  "entries c k = Some e \<Longrightarrow>
   (case cache_reserve k (cache_lock c) of
      (ok, c2) \<Rightarrow> ok \<and> cache_get c2 k = Some (entryImage e) \<and>
                  cache_unlock (cache_release k c2) = c\<lparr>locked := False\<rparr>)"
  by (simp add: cache_reserve_def cache_lock_def cache_unlock_def cache_release_def
        cache_get_def map_upd_triv)

subsection \<open>What a display and a finished load do\<close>

lemma updateInfoString_cached_string:
  assumes "\<not> isWaitingForLoader (state s)"
    and "cache_get (cache s) (fileNameAt (dirManager s) (currentIndex (state s))) = Some c"
  shows "updateInfoString s =
           Inr (emit (SetInfoString
                  (''[ '' @ QString_number (currentIndex (state s) + 1) @ '' / '' @
                   QString_number (fileCount (dirManager s)) @ '' ]   '' @
                   (if 95 < length (name c)
                    then take 95 (name c) @ '' (...) '' @ drop (length (name c) - 12) (name c)
                    else name c) @
                   ''  ('' @ QString_number (width c) @ '' x '' @
                   QString_number (height c) @ ''  '' @
                   QString_number (fileSize c) @ '' KB)'')) s)"
  using assms
  by (simp add: updateInfoString_def Let_def QString_left_def QString_right_def)

lemma displayImage_Some:
  assumes "cache_get (cache s) (fileNameAt (dirManager s) (currentIndex (state s))) = Some c"
  shows "displayImage (Some r) s =
           Inr (s\<lparr>state := (state s)\<lparr>isWaitingForLoader := False, hasActiveImage := True,
                                     displayingFileName := name r\<rparr>,
                  effects := effects s @ [LoadingTimerStop] @
                    (case imageType r of
                       STATIC \<Rightarrow> [ShowImage (getPixmap r)]
                     | ANIMATED \<Rightarrow> [ShowAnimation (decoded r)]
                     | VIDEO \<Rightarrow> [CloseImage, ShowGui, ShowVideo (decoded r)]) @
                    [ImageIndexChanged (currentIndex (state s)),
                     SetInfoString
                       (''[ '' @ QString_number (currentIndex (state s) + 1) @ '' / '' @
                        QString_number (fileCount (dirManager s)) @ '' ]   '' @
                        (if 95 < length (name c)
                         then take 95 (name c) @ '' (...) '' @
                              drop (length (name c) - 12) (name c)
                         else name c) @
                        ''  ('' @ QString_number (width c) @ '' x '' @
                        QString_number (height c) @ ''  '' @
                        QString_number (fileSize c) @ '' KB)'')]\<rparr>)"
  using assms
  by (cases "imageType r")
     (simp_all add: displayImage_def Let_def updateInfoString_cached_string emit_def)

lemma onLoadFinished_outside:
  assumes "indexOf (dirManager s) (name img) < currentIndex (state s) - 1 \<or>
           currentIndex (state s) + 1 < indexOf (dirManager s) (name img)"
  shows "onLoadFinished (Some img) s = Inr (emit (DeleteImage img) s)"
  using assms by (auto simp: onLoadFinished_def Let_def)

lemma onLoadFinished_absent:
  assumes "currentIndex (state s) - 1 \<le> indexOf (dirManager s) (name img)"
    and "indexOf (dirManager s) (name img) \<le> currentIndex (state s) + 1"
    and "\<not> cache_contains (cache s) (fileNameAt (dirManager s) (indexOf (dirManager s) (name img)))"
  shows "onLoadFinished (Some img) s =
           (let inserted = s\<lparr>cache := (cache s)\<lparr>entries := (entries (cache s))
                   (fileNameAt (dirManager s) (indexOf (dirManager s) (name img)) \<mapsto>
                      \<lparr>entryImage = img, reservations = 0\<rparr>)\<rparr>\<rparr>
            in if indexOf (dirManager s) (name img) = currentIndex (state s)
               then displayImage (Some img) inserted else Inr inserted)"
  using assms
  by (auto simp: onLoadFinished_def Let_def cache_insert_def cache_contains_def)

lemma onLoadFinished_present:
  assumes "currentIndex (state s) - 1 \<le> indexOf (dirManager s) (name img)"
    and "indexOf (dirManager s) (name img) \<le> currentIndex (state s) + 1"
    and "cache_contains (cache s) (fileNameAt (dirManager s) (indexOf (dirManager s) (name img)))"
  shows "onLoadFinished (Some img) s =
           (if indexOf (dirManager s) (name img) = currentIndex (state s)
            then displayImage
                   (cache_get (cache s) (fileNameAt (dirManager s) (indexOf (dirManager s) (name img))))
                   (emit (DeleteImage img) s)
            else Inr (emit (DeleteImage img) s))"
  using assms
  by (auto simp: onLoadFinished_def Let_def cache_insert_def cache_contains_def)

lemma onLoadFinished_shown:
  assumes cur: "indexOf (dirManager s) (name img) = currentIndex (state s)"
    and r: "r = (case cache_get (cache s) (fileNameAt (dirManager s) (currentIndex (state s))) of
                  None \<Rightarrow> img | Some c \<Rightarrow> c)"
  shows "\<exists>s'. onLoadFinished (Some img) s = Inr s' \<and>
           state s' = (state s)\<lparr>isWaitingForLoader := False, hasActiveImage := True,
                                 displayingFileName := name r\<rparr> \<and>
           cache_get (cache s') (fileNameAt (dirManager s) (currentIndex (state s))) = Some r \<and>
           emitted s s' =
             (if cache_contains (cache s) (fileNameAt (dirManager s) (currentIndex (state s)))
              then [DeleteImage img] else []) @
             [LoadingTimerStop] @
             (case imageType r of
                STATIC \<Rightarrow> [ShowImage (getPixmap r)]
              | ANIMATED \<Rightarrow> [ShowAnimation (decoded r)]
              | VIDEO \<Rightarrow> [CloseImage, ShowGui, ShowVideo (decoded r)]) @
             [ImageIndexChanged (currentIndex (state s)),
              SetInfoString
                (''[ '' @ QString_number (currentIndex (state s) + 1) @ '' / '' @
                 QString_number (fileCount (dirManager s)) @ '' ]   '' @
                 (if 95 < length (name r)
                  then take 95 (name r) @ '' (...) '' @ drop (length (name r) - 12) (name r)
                  else name r) @
                 ''  ('' @ QString_number (width r) @ '' x '' @
                 QString_number (height r) @ ''  '' @
                 QString_number (fileSize r) @ '' KB)'')]"
proof (cases "cache_contains (cache s) (fileNameAt (dirManager s) (currentIndex (state s)))")
  case True
  let ?d = "emit (DeleteImage img) s"
  from True obtain e where e: "entries (cache s) (fileNameAt (dirManager s) (currentIndex (state s))) = Some e"
    by (auto simp: cache_contains_def)
  with r have got: "cache_get (cache s) (fileNameAt (dirManager s) (currentIndex (state s))) = Some r"
    by (simp add: cache_get_def)
  then have "cache_get (cache ?d) (fileNameAt (dirManager ?d) (currentIndex (state ?d))) = Some r"
    by simp
  note shown = displayImage_Some [OF this, of r]
  from cur True got have "onLoadFinished (Some img) s = displayImage (Some r) ?d"
    by (simp add: onLoadFinished_present)
  with shown True got show ?thesis
    by (simp add: emitted_def)
next
  case False
  let ?i = "s\<lparr>cache := (cache s)\<lparr>entries := (entries (cache s))
                   (fileNameAt (dirManager s) (currentIndex (state s)) \<mapsto>
                      \<lparr>entryImage = img, reservations = 0\<rparr>)\<rparr>\<rparr>"
  from False r have r': "r = img"
    by (simp add: cache_contains_def cache_get_def)
  have "cache_get (cache ?i) (fileNameAt (dirManager ?i) (currentIndex (state ?i))) = Some img"
    by (simp add: cache_get_def)
  note shown = displayImage_Some [OF this, of img]
  from cur False have "onLoadFinished (Some img) s = displayImage (Some img) ?i"
    by (simp add: onLoadFinished_absent Let_def)
  with shown False show ?thesis
    unfolding r' by (simp add: emitted_def cache_get_def)
qed

lemma QString_number_examples:
  "QString_number 1 = ''1''" "QString_number 3 = ''3''" "QString_number 12 = ''12''"
  "QString_number 640 = ''640''" "QString_number 480 = ''480''"
  "QString_number 1920 = ''1920''" "QString_number 1080 = ''1080''" "QString_number 2048 = ''2048''"
  by (simp_all add: QString_number_def natDigits.simps)

section \<open>Completion of a scale request\<close>

text \<open>
  C1. When a scale request completes, the scaled result is handed to the viewer
  (\<open>UpdateFrame\<close>) only if the path stored in the request is the path of the current
  index at that moment. In every other case, and so whenever the two paths differ, the
  only thing the handler does is delete the scaled result: nothing reaches the viewer,
  and no member changes.
\<close>

theorem onScalingFinished_stale_rejected:
  "(UpdateFrame p \<in> set (emitted s (onScalingFinished scaled req s)) \<longrightarrow>
      p = scaled \<and> string req = filePathAt (dirManager s) (currentIndex (state s))) \<and>
   (UpdateFrame scaled \<notin> set (emitted s (onScalingFinished scaled req s)) \<longrightarrow>
      onScalingFinished scaled req s = emit (DeletePixmap scaled) s) \<and>
   (string req \<noteq> filePathAt (dirManager s) (currentIndex (state s)) \<longrightarrow>
      onScalingFinished scaled req s = emit (DeletePixmap scaled) s)"
  by (simp add: onScalingFinished_def)

text \<open>
  A request is made while the first file is shown; it carries the path \<^verbatim>\<open>/dir/a.png\<close>.
  It completes while the second file is current: its result is deleted. It completes
  while the first file is still current: its result is shown.
\<close>

theorem onScalingFinished_stale_rejected_witness:
  "emitted (coreAt threeFiles cacheABC 0) (scalingRequest (10, 10) (coreAt threeFiles cacheABC 0))
     = [RequestScaled \<lparr>image = imageA, size_r = (10, 10), string = ''/dir/a.png''\<rparr>] \<and>
   filePathAt threeFiles 0 = ''/dir/a.png'' \<and> filePathAt threeFiles 1 = ''/dir/b.gif'' \<and>
   onScalingFinished (Scaled (Decoded ''/dir/a.png'') (10, 10) 1)
       \<lparr>image = imageA, size_r = (10, 10), string = ''/dir/a.png''\<rparr>
       (coreAt threeFiles cacheABC 1)
     = emit (DeletePixmap (Scaled (Decoded ''/dir/a.png'') (10, 10) 1))
         (coreAt threeFiles cacheABC 1) \<and>
   emitted (coreAt threeFiles cacheABC 0)
     (onScalingFinished (Scaled (Decoded ''/dir/a.png'') (10, 10) 1)
       \<lparr>image = imageA, size_r = (10, 10), string = ''/dir/a.png''\<rparr>
       (coreAt threeFiles cacheABC 0))
     = [UpdateFrame (Scaled (Decoded ''/dir/a.png'') (10, 10) 1)]"
  using onScalingFinished_stale_rejected
     [of "Scaled (Decoded ''/dir/a.png'') (10, 10) 1" "coreAt threeFiles cacheABC 1"
         "Scaled (Decoded ''/dir/a.png'') (10, 10) 1"
         "\<lparr>image = imageA, size_r = (10, 10), string = ''/dir/a.png''\<rparr>"]
    onScalingFinished_stale_rejected
     [of "Scaled (Decoded ''/dir/a.png'') (10, 10) 1" "coreAt threeFiles cacheABC 0"
         "Scaled (Decoded ''/dir/a.png'') (10, 10) 1"
         "\<lparr>image = imageA, size_r = (10, 10), string = ''/dir/a.png''\<rparr>"]
  by (simp add: onScalingFinished_def scalingRequest_def Let_def emitted_def emit_def
        cache_lock_def cache_unlock_def cache_get_def coreAt_def threeFiles_def listing_def
        cacheABC_def cacheOf_def)

section \<open>Completion of a load\<close>

text \<open>
  C2. A load completes with an image whose name has index \<open>i\<close> in the directory.
  If \<open>i\<close> is outside \<open>[currentIndex - 1, currentIndex + 1]\<close> the image is deleted and
  nothing else happens. If \<open>i\<close> is inside, the image is inserted under the name at
  \<open>i\<close>: where that key is free, the cache takes the image; where the key is taken, the
  image is deleted and the cached one, read with \<open>get\<close>, stands for it. If \<open>i\<close> is
  the current index, the image so resolved is displayed: the run ends normally with
  \<open>isWaitingForLoader\<close> false, \<open>hasActiveImage\<close> true and the name of the resolved
  image as \<open>displayingFileName\<close>; the cache holds the resolved image under its key;
  and what the run does to the outside is, in this order, the delete of the loser if
  there is one, the stop of the loading timer, the call of the viewer that shows the
  resolved image according to its kind, the signal that the index changed, and the info
  string of the resolved image.
\<close>

theorem onLoadFinished_resolution:
  "let i = indexOf (dirManager s) (name img);
       cur = currentIndex (state s);
       nameKey = fileNameAt (dirManager s) i;
       inserted = s\<lparr>cache := (cache s)\<lparr>entries :=
                     (entries (cache s))(nameKey \<mapsto> \<lparr>entryImage = img, reservations = 0\<rparr>)\<rparr>\<rparr>;
       discarded = emit (DeleteImage img) s;
       resolved = (case cache_get (cache s) nameKey of None \<Rightarrow> img | Some c \<Rightarrow> c)
   in (i < cur - 1 \<or> cur + 1 < i \<longrightarrow> onLoadFinished (Some img) s = Inr discarded) \<and>
      (cur - 1 \<le> i \<and> i \<le> cur + 1 \<and> \<not> cache_contains (cache s) nameKey \<longrightarrow>
         onLoadFinished (Some img) s =
           (if i = cur then displayImage (Some img) inserted else Inr inserted)) \<and>
      (cur - 1 \<le> i \<and> i \<le> cur + 1 \<and> cache_contains (cache s) nameKey \<longrightarrow>
         onLoadFinished (Some img) s =
           (if i = cur then displayImage (cache_get (cache s) nameKey) discarded
            else Inr discarded)) \<and>
      (i = cur \<longrightarrow>
         (\<exists>s'. onLoadFinished (Some img) s = Inr s' \<and>
               \<not> isWaitingForLoader (state s') \<and> hasActiveImage (state s') \<and>
               currentIndex (state s') = cur \<and>
               displayingFileName (state s') = name resolved \<and>
               cache_get (cache s') nameKey = Some resolved \<and>
               emitted s s' =
                 (if cache_contains (cache s) nameKey then [DeleteImage img] else []) @
                 [LoadingTimerStop] @
                 (case imageType resolved of
                    STATIC \<Rightarrow> [ShowImage (getPixmap resolved)]
                  | ANIMATED \<Rightarrow> [ShowAnimation (decoded resolved)]
                  | VIDEO \<Rightarrow> [CloseImage, ShowGui, ShowVideo (decoded resolved)]) @
                 [ImageIndexChanged cur,
                  SetInfoString
                    (''[ '' @ QString_number (cur + 1) @ '' / '' @
                     QString_number (fileCount (dirManager s)) @ '' ]   '' @
                     (if 95 < length (name resolved)
                      then take 95 (name resolved) @ '' (...) '' @
                           drop (length (name resolved) - 12) (name resolved)
                      else name resolved) @
                     ''  ('' @ QString_number (width resolved) @ '' x '' @
                     QString_number (height resolved) @ ''  '' @
                     QString_number (fileSize resolved) @ '' KB)'')]))"
proof -
  define i where "i = indexOf (dirManager s) (name img)"
  define cur where "cur = currentIndex (state s)"
  define nameKey where "nameKey = fileNameAt (dirManager s) i"
  define inserted where "inserted = s\<lparr>cache := (cache s)\<lparr>entries :=
                     (entries (cache s))(nameKey \<mapsto> \<lparr>entryImage = img, reservations = 0\<rparr>)\<rparr>\<rparr>"
  define discarded where "discarded = emit (DeleteImage img) s"
  define resolved where
    "resolved = (case cache_get (cache s) nameKey of None \<Rightarrow> img | Some c \<Rightarrow> c)"
  note defs = i_def cur_def nameKey_def inserted_def discarded_def resolved_def
  have outside: "onLoadFinished (Some img) s = Inr discarded" if "i < cur - 1 \<or> cur + 1 < i"
    using that onLoadFinished_outside [of s img] by (simp add: defs)
  have absent: "onLoadFinished (Some img) s =
           (if i = cur then displayImage (Some img) inserted else Inr inserted)"
    if "cur - 1 \<le> i \<and> i \<le> cur + 1 \<and> \<not> cache_contains (cache s) nameKey"
    using that onLoadFinished_absent [of s img] by (simp add: defs Let_def)
  have present: "onLoadFinished (Some img) s =
           (if i = cur then displayImage (cache_get (cache s) nameKey) discarded
            else Inr discarded)"
    if "cur - 1 \<le> i \<and> i \<le> cur + 1 \<and> cache_contains (cache s) nameKey"
    using that onLoadFinished_present [of s img] by (simp add: defs)
  have shown: "\<exists>s'. onLoadFinished (Some img) s = Inr s' \<and>
               \<not> isWaitingForLoader (state s') \<and> hasActiveImage (state s') \<and>
               currentIndex (state s') = cur \<and>
               displayingFileName (state s') = name resolved \<and>
               cache_get (cache s') nameKey = Some resolved \<and>
               emitted s s' =
                 (if cache_contains (cache s) nameKey then [DeleteImage img] else []) @
                 [LoadingTimerStop] @
                 (case imageType resolved of
                    STATIC \<Rightarrow> [ShowImage (getPixmap resolved)]
                  | ANIMATED \<Rightarrow> [ShowAnimation (decoded resolved)]
                  | VIDEO \<Rightarrow> [CloseImage, ShowGui, ShowVideo (decoded resolved)]) @
                 [ImageIndexChanged cur,
                  SetInfoString
                    (''[ '' @ QString_number (cur + 1) @ '' / '' @
                     QString_number (fileCount (dirManager s)) @ '' ]   '' @
                     (if 95 < length (name resolved)
                      then take 95 (name resolved) @ '' (...) '' @
                           drop (length (name resolved) - 12) (name resolved)
                      else name resolved) @
                     ''  ('' @ QString_number (width resolved) @ '' x '' @
                     QString_number (height resolved) @ ''  '' @
                     QString_number (fileSize resolved) @ '' KB)'')]" if eq: "i = cur"
  proof -
    from eq have a: "indexOf (dirManager s) (name img) = currentIndex (state s)"
      by (simp add: defs)
    from eq have b: "resolved =
        (case cache_get (cache s) (fileNameAt (dirManager s) (currentIndex (state s))) of
           None \<Rightarrow> img | Some c \<Rightarrow> c)"
      by (simp add: defs)
    from eq have k: "nameKey = fileNameAt (dirManager s) (currentIndex (state s))"
      by (simp add: defs)
    from onLoadFinished_shown [OF a b] obtain s' where
      "onLoadFinished (Some img) s = Inr s'"
      "state s' = (state s)\<lparr>isWaitingForLoader := False, hasActiveImage := True,
                                 displayingFileName := name resolved\<rparr>"
      "cache_get (cache s') (fileNameAt (dirManager s) (currentIndex (state s))) = Some resolved"
      "emitted s s' =
             (if cache_contains (cache s) (fileNameAt (dirManager s) (currentIndex (state s)))
              then [DeleteImage img] else []) @
             [LoadingTimerStop] @
             (case imageType resolved of
                STATIC \<Rightarrow> [ShowImage (getPixmap resolved)]
              | ANIMATED \<Rightarrow> [ShowAnimation (decoded resolved)]
              | VIDEO \<Rightarrow> [CloseImage, ShowGui, ShowVideo (decoded resolved)]) @
             [ImageIndexChanged (currentIndex (state s)),
              SetInfoString
                (''[ '' @ QString_number (currentIndex (state s) + 1) @ '' / '' @
                 QString_number (fileCount (dirManager s)) @ '' ]   '' @
                 (if 95 < length (name resolved)
                  then take 95 (name resolved) @ '' (...) '' @
                       drop (length (name resolved) - 12) (name resolved)
                  else name resolved) @
                 ''  ('' @ QString_number (width resolved) @ '' x '' @
                 QString_number (height resolved) @ ''  '' @
                 QString_number (fileSize resolved) @ '' KB)'')]"
      by blast
    then show ?thesis
      unfolding k cur_def by (intro exI [of _ s']) simp
  qed
  from outside absent present shown show ?thesis
    unfolding Let_def defs [symmetric] by blast
qed

text \<open>
  While the first of three files is awaited: the third file completes and is only
  deleted; the first completes on an empty cache, is inserted and shown; the first
  completes when the cache already holds it (rotated), is deleted, and the cached one
  is shown; the second completes and is only inserted.
\<close>

theorem onLoadFinished_resolution_witness:
  "onLoadFinished (Some imageC) (loadingAt threeFiles emptyCache 0)
     = Inr (emit (DeleteImage imageC) (loadingAt threeFiles emptyCache 0)) \<and>
   onLoadFinished (Some imageA) (loadingAt threeFiles emptyCache 0)
     = displayImage (Some imageA)
         ((loadingAt threeFiles emptyCache 0)
            \<lparr>cache := (cache (loadingAt threeFiles emptyCache 0))
               \<lparr>entries := (entries (cache (loadingAt threeFiles emptyCache 0)))
                  (''a.png'' \<mapsto> \<lparr>entryImage = imageA, reservations = 0\<rparr>)\<rparr>\<rparr>) \<and>
   (\<exists>s'. onLoadFinished (Some imageA) (loadingAt threeFiles emptyCache 0) = Inr s' \<and>
         \<not> isWaitingForLoader (state s') \<and> hasActiveImage (state s') \<and>
         currentIndex (state s') = 0 \<and> displayingFileName (state s') = ''a.png'' \<and>
         cache_get (cache s') ''a.png'' = Some imageA \<and>
         emitted (loadingAt threeFiles emptyCache 0) s' =
           [LoadingTimerStop, ShowImage (Decoded ''/dir/a.png''), ImageIndexChanged 0,
            SetInfoString ''[ 1 / 3 ]   a.png  (640 x 480  12 KB)'']) \<and>
   onLoadFinished (Some imageA)
       (loadingAt threeFiles (cacheOf [(''a.png'', \<lparr>entryImage = imageA_rotated, reservations = 0\<rparr>)]) 0)
     = displayImage (Some imageA_rotated)
         (emit (DeleteImage imageA)
            (loadingAt threeFiles (cacheOf [(''a.png'', \<lparr>entryImage = imageA_rotated, reservations = 0\<rparr>)]) 0)) \<and>
   (\<exists>s'. onLoadFinished (Some imageA)
           (loadingAt threeFiles (cacheOf [(''a.png'', \<lparr>entryImage = imageA_rotated, reservations = 0\<rparr>)]) 0)
           = Inr s' \<and>
         \<not> isWaitingForLoader (state s') \<and> hasActiveImage (state s') \<and>
         currentIndex (state s') = 0 \<and> displayingFileName (state s') = ''a.png'' \<and>
         cache_get (cache s') ''a.png'' = Some imageA_rotated \<and>
         emitted (loadingAt threeFiles (cacheOf [(''a.png'', \<lparr>entryImage = imageA_rotated, reservations = 0\<rparr>)]) 0) s' =
           [DeleteImage imageA, LoadingTimerStop,
            ShowImage (Rotated (Decoded ''/dir/a.png'') 90), ImageIndexChanged 0,
            SetInfoString ''[ 1 / 3 ]   a.png  (640 x 480  12 KB)'']) \<and>
   onLoadFinished (Some imageB) (loadingAt threeFiles emptyCache 0)
     = Inr ((loadingAt threeFiles emptyCache 0)
            \<lparr>cache := (cache (loadingAt threeFiles emptyCache 0))
               \<lparr>entries := (entries (cache (loadingAt threeFiles emptyCache 0)))
                  (''b.gif'' \<mapsto> \<lparr>entryImage = imageB, reservations = 0\<rparr>)\<rparr>\<rparr>)"
proof -
  let ?s = "loadingAt threeFiles emptyCache 0"
  let ?t = "loadingAt threeFiles
              (cacheOf [(''a.png'', \<lparr>entryImage = imageA_rotated, reservations = 0\<rparr>)]) 0"
  note defs = loadingAt_def coreAt_def threeFiles_def listing_def emptyCache_def cacheOf_def
    imageA_def imageB_def imageC_def cache_contains_def cache_get_def
  have s: "currentIndex (state ?s) = 0" "fileCount (dirManager ?s) = 3"
    "indexOf (dirManager ?s) (name imageA) = 0" "indexOf (dirManager ?s) (name imageB) = 1"
    "indexOf (dirManager ?s) (name imageC) = 2"
    "fileNameAt (dirManager ?s) 0 = ''a.png''" "fileNameAt (dirManager ?s) 1 = ''b.gif''"
    "\<not> cache_contains (cache ?s) ''a.png''" "\<not> cache_contains (cache ?s) ''b.gif''"
    "cache_get (cache ?s) ''a.png'' = None"
    by (simp_all add: defs)
  have t: "currentIndex (state ?t) = 0" "fileCount (dirManager ?t) = 3"
    "indexOf (dirManager ?t) (name imageA) = 0"
    "fileNameAt (dirManager ?t) 0 = ''a.png''" "cache_contains (cache ?t) ''a.png''"
    "cache_get (cache ?t) ''a.png'' = Some imageA_rotated"
    by (simp_all add: defs)
  have a: "name imageA = ''a.png''" "imageType imageA = STATIC" "width imageA = 640"
    "height imageA = 480" "fileSize imageA = 12" "getPixmap imageA = Decoded ''/dir/a.png''"
    by (simp_all add: imageA_def getPixmap_def getImage_def)
  have ar: "name imageA_rotated = ''a.png''" "imageType imageA_rotated = STATIC"
    "width imageA_rotated = 640" "height imageA_rotated = 480" "fileSize imageA_rotated = 12"
    "getPixmap imageA_rotated = Rotated (Decoded ''/dir/a.png'') 90"
    by (simp_all add: imageA_rotated_def imageA_def getPixmap_def getImage_def)
  have third: "onLoadFinished (Some imageC) ?s = Inr (emit (DeleteImage imageC) ?s)"
    using onLoadFinished_resolution [of ?s imageC] s by (simp add: Let_def)
  have first: "onLoadFinished (Some imageA) ?s
     = displayImage (Some imageA)
         (?s\<lparr>cache := (cache ?s)\<lparr>entries := (entries (cache ?s))
                  (''a.png'' \<mapsto> \<lparr>entryImage = imageA, reservations = 0\<rparr>)\<rparr>\<rparr>)"
    using onLoadFinished_resolution [of ?s imageA] s by (simp add: Let_def)
  note at_current = onLoadFinished_resolution [of ?s imageA, unfolded Let_def,
    THEN conjunct2, THEN conjunct2, THEN conjunct2]
  from at_current s a have first_shown: "\<exists>s'. onLoadFinished (Some imageA) ?s = Inr s' \<and>
         \<not> isWaitingForLoader (state s') \<and> hasActiveImage (state s') \<and>
         currentIndex (state s') = 0 \<and> displayingFileName (state s') = ''a.png'' \<and>
         cache_get (cache s') ''a.png'' = Some imageA \<and>
         emitted ?s s' =
           [LoadingTimerStop, ShowImage (Decoded ''/dir/a.png''), ImageIndexChanged 0,
            SetInfoString ''[ 1 / 3 ]   a.png  (640 x 480  12 KB)'']"
    by (simp add: QString_number_examples)
  have again: "onLoadFinished (Some imageA) ?t
     = displayImage (Some imageA_rotated) (emit (DeleteImage imageA) ?t)"
    using onLoadFinished_resolution [of ?t imageA] t by (simp add: Let_def)
  note at_current_again = onLoadFinished_resolution [of ?t imageA, unfolded Let_def,
    THEN conjunct2, THEN conjunct2, THEN conjunct2]
  from at_current_again t ar have again_shown: "\<exists>s'. onLoadFinished (Some imageA) ?t = Inr s' \<and>
         \<not> isWaitingForLoader (state s') \<and> hasActiveImage (state s') \<and>
         currentIndex (state s') = 0 \<and> displayingFileName (state s') = ''a.png'' \<and>
         cache_get (cache s') ''a.png'' = Some imageA_rotated \<and>
         emitted ?t s' =
           [DeleteImage imageA, LoadingTimerStop,
            ShowImage (Rotated (Decoded ''/dir/a.png'') 90), ImageIndexChanged 0,
            SetInfoString ''[ 1 / 3 ]   a.png  (640 x 480  12 KB)'']"
    by (simp add: QString_number_examples)
  have second: "onLoadFinished (Some imageB) ?s
     = Inr (?s\<lparr>cache := (cache ?s)\<lparr>entries := (entries (cache ?s))
                  (''b.gif'' \<mapsto> \<lparr>entryImage = imageB, reservations = 0\<rparr>)\<rparr>\<rparr>)"
    using onLoadFinished_resolution [of ?s imageB] s by (simp add: Let_def)
  from third first first_shown again again_shown second show ?thesis
    by blast
qed

section \<open>A load that finishes without an image\<close>

text \<open>
  C3. The handler of a finished load reads the name of the image in its first
  statement. On a null image that read is a null dereference: the run ends there,
  before \<open>displayImage\<close>, which has the test for a null image and the message for it,
  is reached.
\<close>

theorem onLoadFinished_null_image:
  "onLoadFinished None s = Inl NullDereference"
  by (simp add: onLoadFinished_def)

section \<open>Stepping past the last file\<close>

text \<open>
  C4. In a directory of three files, at the last index 2, \<^verbatim>\<open>slotNextImage\<close> without
  infinite scrolling only shows the end-of-directory message: the index stays 2, no
  load is submitted and no other member changes. With infinite scrolling the same call
  returns normally with the current index 0.
\<close>

theorem slotNextImage_boundary:
  assumes "fileCount (dirManager s) = 3" and "hasImages (dirManager s)"
    and "currentIndex (state s) = 2"
  shows "(\<not> infiniteScrolling s \<longrightarrow> slotNextImage s = Inr (emit ShowMessageDirectoryEnd s)) \<and>
         (infiniteScrolling s \<longrightarrow>
            (\<exists>s'. slotNextImage s = Inr s' \<and> currentIndex (state s') = 0))"
proof (intro conjI impI)
  assume "\<not> infiniteScrolling s"
  with assms show "slotNextImage s = Inr (emit ShowMessageDirectoryEnd s)"
    by (simp add: slotNextImage_def Let_def)
next
  assume "infiniteScrolling s"
  with assms slotNextImage_navigates [of s]
  show "\<exists>s'. slotNextImage s = Inr s' \<and> currentIndex (state s') = 0"
    by auto
qed

theorem slotNextImage_boundary_witness:
  "fileCount (dirManager (coreAt threeFiles emptyCache 2)) = 3 \<and>
   hasImages (dirManager (coreAt threeFiles emptyCache 2)) \<and>
   currentIndex (state (coreAt threeFiles emptyCache 2)) = 2 \<and>
   slotNextImage (coreAt threeFiles emptyCache 2)
     = Inr (emit ShowMessageDirectoryEnd (coreAt threeFiles emptyCache 2)) \<and>
   (\<exists>s'. slotNextImage ((coreAt threeFiles emptyCache 2)\<lparr>infiniteScrolling := True\<rparr>) = Inr s' \<and>
         currentIndex (state s') = 0)"
  using slotNextImage_boundary [of "coreAt threeFiles emptyCache 2"]
    slotNextImage_boundary [of "(coreAt threeFiles emptyCache 2)\<lparr>infiniteScrolling := True\<rparr>"]
  by (simp add: coreAt_def threeFiles_def listing_def)

section \<open>The cache window after a navigation\<close>

text \<open>
  C5. The handler of a finished load breaks the window of the cache. An image whose
  name the directory does not list has index \<open>-1\<close>. While the current index is 0,
  that index passes the test for the window, so the image is inserted under the name
  the directory answers for index \<open>-1\<close> instead of being deleted. A navigation to
  index 0 then succeeds, and after it the cache still holds the image under that key:
  the entry is not pinned, and the key is not the name of a valid index among
  \<open>-1, 0, 1\<close>. While the current index is 1 or more, the same image is deleted.
\<close>

theorem unlisted_image_escapes_window:
  "(indexOf (dirManager s) (name img) = - 1 \<and> currentIndex (state s) = 0 \<and>
    0 < fileCount (dirManager s) \<and>
    \<not> cache_contains (cache s) (fileNameAt (dirManager s) (- 1)) \<and>
    fileNameAt (dirManager s) (- 1) \<notin> validWindowNames (dirManager s) 0 \<longrightarrow>
      (\<exists>s1 s2. onLoadFinished (Some img) s = Inr s1 \<and>
         loadByIndex 0 s1 = Inr (True, s2) \<and>
         currentIndex (state s2) = 0 \<and> dirManager s2 = dirManager s \<and>
         cache_get (cache s2) (fileNameAt (dirManager s) (- 1)) = Some img \<and>
         \<not> pinned (cache s2) (fileNameAt (dirManager s) (- 1)) \<and>
         fileNameAt (dirManager s) (- 1)
           \<notin> validWindowNames (dirManager s2) (currentIndex (state s2)))) \<and>
   (indexOf (dirManager s) (name img) = - 1 \<and> 1 \<le> currentIndex (state s) \<longrightarrow>
      onLoadFinished (Some img) s = Inr (emit (DeleteImage img) s))"
proof (intro conjI impI)
  assume "indexOf (dirManager s) (name img) = - 1 \<and> 1 \<le> currentIndex (state s)"
  then show "onLoadFinished (Some img) s = Inr (emit (DeleteImage img) s)"
    by (intro onLoadFinished_outside) simp
next
  let ?key = "fileNameAt (dirManager s) (- 1)"
  let ?s1 = "s\<lparr>cache := (cache s)\<lparr>entries := (entries (cache s))
                 (?key \<mapsto> \<lparr>entryImage = img, reservations = 0\<rparr>)\<rparr>\<rparr>"
  assume h: "indexOf (dirManager s) (name img) = - 1 \<and> currentIndex (state s) = 0 \<and>
    0 < fileCount (dirManager s) \<and>
    \<not> cache_contains (cache s) ?key \<and> ?key \<notin> validWindowNames (dirManager s) 0"
  then have first: "onLoadFinished (Some img) s = Inr ?s1"
    using onLoadFinished_absent [of s img] by (simp add: Let_def)
  from h have "0 \<le> (0::int)" "0 < fileCount (dirManager ?s1)" by simp_all
  from loadByIndex_in_range [OF this] obtain s2 where
    s2: "loadByIndex 0 ?s1 = Inr (True, s2)" "extends ?s1 s2" "currentIndex (state s2) = 0"
      "cache s2 = cache (trimCache (?s1\<lparr>state := (state ?s1)\<lparr>currentIndex := 0\<rparr>\<rparr>))"
    by blast
  from s2(2) have dm: "dirManager s2 = dirManager s"
    by (simp add: extends_def)
  from s2(4) have kept: "entries (cache s2) ?key = Some \<lparr>entryImage = img, reservations = 0\<rparr>"
    by (simp add: trimCache_def Let_def cache_trimTo_def cache_lock_def cache_unlock_def)
  from first s2 dm kept h
  show "\<exists>s1 s2. onLoadFinished (Some img) s = Inr s1 \<and>
         loadByIndex 0 s1 = Inr (True, s2) \<and>
         currentIndex (state s2) = 0 \<and> dirManager s2 = dirManager s \<and>
         cache_get (cache s2) (fileNameAt (dirManager s) (- 1)) = Some img \<and>
         \<not> pinned (cache s2) (fileNameAt (dirManager s) (- 1)) \<and>
         fileNameAt (dirManager s) (- 1)
           \<notin> validWindowNames (dirManager s2) (currentIndex (state s2))"
    by (intro exI [of _ ?s1] exI [of _ s2]) (simp add: cache_get_def pinned_def)
qed

text \<open>
  In the directory of three files the name of an unlisted file has index \<open>-1\<close> and
  index \<open>-1\<close> has the empty name. The image of a file that is gone completes while
  the first file is awaited, and survives the navigation to index 0 under the empty
  key; completing while the second file is awaited, it is deleted.
\<close>

theorem unlisted_image_escapes_window_witness:
  "indexOf threeFiles (name ghostImage) = - 1 \<and>
   fileNameAt threeFiles (- 1) = [] \<and>
   validWindowNames threeFiles 0 = {''a.png'', ''b.gif''} \<and>
   (\<exists>s1 s2. onLoadFinished (Some ghostImage) (loadingAt threeFiles emptyCache 0) = Inr s1 \<and>
      loadByIndex 0 s1 = Inr (True, s2) \<and>
      currentIndex (state s2) = 0 \<and> dirManager s2 = threeFiles \<and>
      cache_get (cache s2) [] = Some ghostImage \<and> \<not> pinned (cache s2) [] \<and>
      [] \<notin> validWindowNames threeFiles 0) \<and>
   onLoadFinished (Some ghostImage) (loadingAt threeFiles emptyCache 1)
     = Inr (emit (DeleteImage ghostImage) (loadingAt threeFiles emptyCache 1)) \<and>
   (case andThen (onLoadFinished (Some ghostImage) (loadingAt threeFiles emptyCache 0))
           (loadByIndex 0) of
      Inr (ok, s') \<Rightarrow>
        ok \<and> currentIndex (state s') = 0 \<and> fileCount (dirManager s') = 3 \<and>
        cache_contains (cache s') [] \<and> \<not> pinned (cache s') [] \<and>
        [] \<notin> validWindowNames (dirManager s') 0
    | Inl e \<Rightarrow> False)"
proof -
  let ?s = "loadingAt threeFiles emptyCache 0"
  let ?u = "loadingAt threeFiles emptyCache 1"
  note defs = loadingAt_def coreAt_def threeFiles_def listing_def emptyCache_def ghostImage_def
    cache_contains_def validWindowNames_def
  have d: "indexOf threeFiles (name ghostImage) = - 1" "fileNameAt threeFiles (- 1) = []"
    "validWindowNames threeFiles 0 = {''a.png'', ''b.gif''}"
    by (auto simp: defs)
  have s: "dirManager ?s = threeFiles" "currentIndex (state ?s) = 0"
    "0 < fileCount (dirManager ?s)" "\<not> cache_contains (cache ?s) []"
    by (simp_all add: defs)
  have u: "dirManager ?u = threeFiles" "1 \<le> currentIndex (state ?u)"
    by (simp_all add: defs)
  note at_first = unlisted_image_escapes_window [of ?s ghostImage, THEN conjunct1]
  note later = unlisted_image_escapes_window [of ?u ghostImage, THEN conjunct2]
  from at_first d s
  have escaped: "\<exists>s1 s2. onLoadFinished (Some ghostImage) ?s = Inr s1 \<and>
      loadByIndex 0 s1 = Inr (True, s2) \<and>
      currentIndex (state s2) = 0 \<and> dirManager s2 = threeFiles \<and>
      cache_get (cache s2) [] = Some ghostImage \<and> \<not> pinned (cache s2) [] \<and>
      [] \<notin> validWindowNames threeFiles 0"
    by auto
  from later d u
  have deleted: "onLoadFinished (Some ghostImage) ?u = Inr (emit (DeleteImage ghostImage) ?u)"
    by simp
  have run: "(case andThen (onLoadFinished (Some ghostImage) ?s) (loadByIndex 0) of
      Inr (ok, s') \<Rightarrow>
        ok \<and> currentIndex (state s') = 0 \<and> fileCount (dirManager s') = 3 \<and>
        cache_contains (cache s') [] \<and> \<not> pinned (cache s') [] \<and>
        [] \<notin> validWindowNames (dirManager s') 0
    | Inl e \<Rightarrow> False)"
    by (simp add: onLoadFinished_def loadByIndex_def onLoadStarted_def updateInfoString_def
        trimCache_def Let_def loadingAt_def coreAt_def threeFiles_def listing_def
        emptyCache_def ghostImage_def cache_insert_def cache_contains_def cache_get_def
        cache_trimTo_def cache_lock_def cache_unlock_def pinned_def validWindowNames_def
        emit_def)
  from d escaped deleted run show ?thesis by blast
qed

section \<open>A decode failure\<close>

text \<open>
  C6. A decode failure reaches the controller as a null image in the handler of a
  finished load. Every run of that handler that returns normally had an image that is
  not null, and shows no message that the image could not be loaded: on a null image
  the run ends in the null dereference of C3, before \<^verbatim>\<open>displayImage\<close>, which has the
  test for the null image and the message, is called.
\<close>

theorem decode_failure_not_reported:
  assumes "onLoadFinished p s = Inr s'"
  shows "p \<noteq> None \<and> ShowMessage ''Error: could not load image.'' \<notin> set (emitted s s')"
proof (cases p)
  case None
  with assms show ?thesis by (simp add: onLoadFinished_def)
next
  case (Some img)
  let ?i = "indexOf (dirManager s) (name img)"
  let ?cur = "currentIndex (state s)"
  let ?key = "fileNameAt (dirManager s) ?i"
  consider (outside) "?i < ?cur - 1 \<or> ?cur + 1 < ?i"
    | (current) "?i = ?cur"
    | (absent) "?cur - 1 \<le> ?i" "?i \<le> ?cur + 1" "?i \<noteq> ?cur" "\<not> cache_contains (cache s) ?key"
    | (present) "?cur - 1 \<le> ?i" "?i \<le> ?cur + 1" "?i \<noteq> ?cur" "cache_contains (cache s) ?key"
    by linarith
  then have "ShowMessage ''Error: could not load image.'' \<notin> set (emitted s s')"
  proof cases
    case outside
    from onLoadFinished_outside [OF outside] assms Some show ?thesis by auto
  next
    case current
    from onLoadFinished_shown [OF current refl] assms Some show ?thesis
      by (auto split: ImageType.splits)
  next
    case absent
    from onLoadFinished_absent [OF absent(1,2,4)] absent(3) assms Some show ?thesis
      by (auto simp: Let_def emitted_def)
  next
    case present
    from onLoadFinished_present [OF present(1,2,4)] present(3) assms Some show ?thesis
      by auto
  qed
  with Some show ?thesis by simp
qed

text \<open>
  While the first of three files is awaited, a null image ends the run in the null
  dereference; the image of the first file is shown, without the error message.
\<close>

theorem decode_failure_not_reported_witness:
  "onLoadFinished None (loadingAt threeFiles emptyCache 0) = Inl NullDereference \<and>
   (\<exists>s'. onLoadFinished (Some imageA) (loadingAt threeFiles emptyCache 0) = Inr s' \<and>
         ShowMessage ''Error: could not load image.''
           \<notin> set (emitted (loadingAt threeFiles emptyCache 0) s'))"
proof -
  let ?s = "loadingAt threeFiles emptyCache 0"
  have "indexOf (dirManager ?s) (name imageA) = currentIndex (state ?s)"
    by (simp add: loadingAt_def coreAt_def threeFiles_def listing_def imageA_def)
  from onLoadFinished_shown [OF this refl] obtain s' where
    s': "onLoadFinished (Some imageA) ?s = Inr s'"
    by blast
  from decode_failure_not_reported [OF s'] s'
  have "\<exists>s'. onLoadFinished (Some imageA) ?s = Inr s' \<and>
         ShowMessage ''Error: could not load image.'' \<notin> set (emitted ?s s')"
    by blast
  moreover have "onLoadFinished None ?s = Inl NullDereference"
    by (simp add: onLoadFinished_def)
  ultimately show ?thesis by blast
qed

section \<open>Editing an image that is not static\<close>

text \<open>
  C7. \<^verbatim>\<open>resize\<close> or \<^verbatim>\<open>rotateByDegrees\<close> is called at an index that is not negative,
  and the cache holds the current file with a kind other than \<open>STATIC\<close>. Then the
  call returns normally, and the controller after it is the controller before it with
  one more event, the message that editing is unsupported, and with the cache unlocked:
  the reservation taken is given back, so the entries of the cache, their images and
  their reservation counts, and the navigation state are what they were.
\<close>

theorem edit_unsupported_kind:
  assumes "0 \<le> currentIndex (state s)"
    and "entries (cache s) (fileNameAt (dirManager s) (currentIndex (state s))) = Some e"
    and "imageType (entryImage e) \<noteq> STATIC"
  shows "resize sz s =
           Inr (emit (ShowMessage ''Editing gifs/video is unsupported.'')
                  (s\<lparr>cache := (cache s)\<lparr>locked := False\<rparr>\<rparr>)) \<and>
         rotateByDegrees degrees s =
           Inr (emit (ShowMessage ''Editing gifs/video is unsupported.'')
                  (s\<lparr>cache := (cache s)\<lparr>locked := False\<rparr>\<rparr>))"
  using assms reserve_release [OF assms(2)]
  by (auto simp: resize_def rotateByDegrees_def Let_def split: prod.splits)

theorem edit_unsupported_kind_witness:
  "0 \<le> currentIndex (state (coreAt threeFiles cacheABC 1)) \<and>
   cache_get (cache (coreAt threeFiles cacheABC 1))
     (fileNameAt (dirManager (coreAt threeFiles cacheABC 1))
        (currentIndex (state (coreAt threeFiles cacheABC 1)))) = Some imageB \<and>
   imageType imageB = ANIMATED \<and>
   resize (10, 10) (coreAt threeFiles cacheABC 1)
     = Inr (emit (ShowMessage ''Editing gifs/video is unsupported.'')
              (coreAt threeFiles cacheABC 1)) \<and>
   rotateByDegrees 90 (coreAt threeFiles cacheABC 1)
     = Inr (emit (ShowMessage ''Editing gifs/video is unsupported.'')
              (coreAt threeFiles cacheABC 1))"
proof -
  let ?s = "coreAt threeFiles cacheABC 1"
  note defs = coreAt_def threeFiles_def listing_def cacheABC_def cacheOf_def imageB_def
  have idx: "0 \<le> currentIndex (state ?s)"
    and entry: "entries (cache ?s) (fileNameAt (dirManager ?s) (currentIndex (state ?s)))
                  = Some \<lparr>entryImage = imageB, reservations = 0\<rparr>"
    and kind: "imageType (entryImage \<lparr>entryImage = imageB, reservations = 0\<rparr>) \<noteq> STATIC"
    and same: "?s\<lparr>cache := (cache ?s)\<lparr>locked := False\<rparr>\<rparr> = ?s"
    by (simp_all add: defs)
  from edit_unsupported_kind [OF idx entry kind, of "(10, 10)" 90] entry
  show ?thesis
    by (simp add: same cache_get_def) (simp add: defs)
qed

section \<open>Editing when the reservation fails\<close>

text \<open>
  C8, as the specification states it, fails. With the current file absent from the
  cache, \<open>reserve\<close> fails, and all that \<^verbatim>\<open>resize\<close> and \<^verbatim>\<open>rotateByDegrees\<close> then do
  is write a line to the debug log: no message is shown in the window.
\<close>

theorem edit_reserve_failed_silent_counterexample:
  "0 \<le> currentIndex (state (coreAt threeFiles emptyCache 0)) \<and>
   \<not> cache_contains (cache (coreAt threeFiles emptyCache 0))
        (fileNameAt (dirManager (coreAt threeFiles emptyCache 0))
           (currentIndex (state (coreAt threeFiles emptyCache 0)))) \<and>
   (case resize (10, 10) (coreAt threeFiles emptyCache 0) of
      Inr s' \<Rightarrow>
        emitted (coreAt threeFiles emptyCache 0) s'
          = [DebugLog ''Core::resize() - could not lock cache object.''] \<and>
        filter isMessage (emitted (coreAt threeFiles emptyCache 0) s') = []
    | Inl e \<Rightarrow> False) \<and>
   (case rotateByDegrees 90 (coreAt threeFiles emptyCache 0) of
      Inr s' \<Rightarrow>
        emitted (coreAt threeFiles emptyCache 0) s'
          = [DebugLog ''Core::rotateByDegrees() - could not lock cache object.''] \<and>
        filter isMessage (emitted (coreAt threeFiles emptyCache 0) s') = []
    | Inl e \<Rightarrow> False)"
  by (simp add: resize_def rotateByDegrees_def Let_def cache_reserve_def cache_lock_def
        cache_unlock_def cache_contains_def emitted_def emit_def coreAt_def threeFiles_def
        listing_def emptyCache_def)

text \<open>
  C8, amended. \<^verbatim>\<open>resize\<close> or \<^verbatim>\<open>rotateByDegrees\<close> is called at an index that is not
  negative, and the cache does not hold the current file, so that \<open>reserve\<close> fails.
  Then the call returns normally, and the controller after it is the controller before
  it with one more event, a line in the debug log, and with the cache unlocked: no
  message is shown in the window, and the entries of the cache and the navigation state
  are what they were.
\<close>

theorem edit_reserve_failed:
  assumes "0 \<le> currentIndex (state s)"
    and "entries (cache s) (fileNameAt (dirManager s) (currentIndex (state s))) = None"
  shows "resize sz s =
           Inr (emit (DebugLog ''Core::resize() - could not lock cache object.'')
                  (s\<lparr>cache := (cache s)\<lparr>locked := False\<rparr>\<rparr>)) \<and>
         rotateByDegrees degrees s =
           Inr (emit (DebugLog ''Core::rotateByDegrees() - could not lock cache object.'')
                  (s\<lparr>cache := (cache s)\<lparr>locked := False\<rparr>\<rparr>))"
  using assms
  by (simp add: resize_def rotateByDegrees_def Let_def cache_reserve_def cache_lock_def
        cache_unlock_def)

theorem edit_reserve_failed_witness:
  "0 \<le> currentIndex (state (coreAt threeFiles emptyCache 0)) \<and>
   resize (10, 10) (coreAt threeFiles emptyCache 0)
     = Inr (emit (DebugLog ''Core::resize() - could not lock cache object.'')
              (coreAt threeFiles emptyCache 0)) \<and>
   rotateByDegrees 90 (coreAt threeFiles emptyCache 0)
     = Inr (emit (DebugLog ''Core::rotateByDegrees() - could not lock cache object.'')
              (coreAt threeFiles emptyCache 0))"
proof -
  let ?s = "coreAt threeFiles emptyCache 0"
  note defs = coreAt_def threeFiles_def listing_def emptyCache_def
  have idx: "0 \<le> currentIndex (state ?s)"
    and entry: "entries (cache ?s) (fileNameAt (dirManager ?s) (currentIndex (state ?s))) = None"
    and same: "?s\<lparr>cache := (cache ?s)\<lparr>locked := False\<rparr>\<rparr> = ?s"
    by (simp_all add: defs)
  from edit_reserve_failed [OF idx entry, of "(10, 10)" 90] idx
  show ?thesis
    by (simp add: same)
qed

section \<open>The info string\<close>

text \<open>
  C9, as the specification states it, fails. While a load is awaited the info string is
  the bracketed index and count only, with no name, dimensions or size, though the
  cache holds the current image. When no load is awaited the string has the parts the
  specification names, with other blanks: a blank inside each bracket, three blanks
  after the closing bracket, and a blank before \<^verbatim>\<open>KB\<close>.
\<close>

theorem info_string_while_waiting_counterexample:
  "cache_get (cache (coreAt threeFiles cacheABC 0)) (fileNameAt threeFiles 0) = Some imageA \<and>
   updateInfoString (loadingAt threeFiles cacheABC 0)
     = Inr (emit (SetInfoString ''[ 1 / 3 ]   '')
         (loadingAt threeFiles cacheABC 0)) \<and>
   updateInfoString (coreAt threeFiles cacheABC 0)
     = Inr (emit (SetInfoString ''[ 1 / 3 ]   a.png  (640 x 480  12 KB)'')
         (coreAt threeFiles cacheABC 0)) \<and>
   specInfoString 1 3 ''a.png'' 640 480 12 = ''[1 / 3]  a.png  (640 x 480  12KB)''"
  by (simp add: updateInfoString_def Let_def loadingAt_def coreAt_def threeFiles_def listing_def
        cacheABC_def cacheOf_def cache_get_def imageA_def specInfoString_def
        QString_number_def natDigits.simps)

text \<open>
  C9, amended. While \<open>isWaitingForLoader\<close> is true, the info string is \<^verbatim>\<open>[ i / n ]\<close>
  followed by three blanks, with \<open>i\<close> the current index plus one and \<open>n\<close> the number
  of files. While it is false and the cache holds the current image, the string goes on
  with the name as shown, two blanks, and \<^verbatim>\<open>(w x h  k KB)\<close>. A name of more than 95
  characters is shown as its 95 leading characters, then \<^verbatim>\<open> (...) \<close>, then its 12
  trailing characters, 114 characters in all; a name of at most 95 characters is shown
  in full.
\<close>

theorem updateInfoString_format:
  "(isWaitingForLoader (state s) \<longrightarrow>
      updateInfoString s =
        Inr (emit (SetInfoString
               (''[ '' @ QString_number (currentIndex (state s) + 1) @ '' / '' @
                QString_number (fileCount (dirManager s)) @ '' ]   '')) s)) \<and>
   (\<not> isWaitingForLoader (state s) \<and>
    cache_get (cache s) (fileNameAt (dirManager s) (currentIndex (state s))) = Some img \<longrightarrow>
      (let shown = (if 95 < length (name img)
                    then take 95 (name img) @ '' (...) '' @
                         drop (length (name img) - 12) (name img)
                    else name img)
       in updateInfoString s =
            Inr (emit (SetInfoString
                   (''[ '' @ QString_number (currentIndex (state s) + 1) @ '' / '' @
                    QString_number (fileCount (dirManager s)) @ '' ]   '' @ shown @
                    ''  ('' @ QString_number (width img) @ '' x '' @
                    QString_number (height img) @ ''  '' @
                    QString_number (fileSize img) @ '' KB)'')) s) \<and>
          (95 < length (name img) \<longrightarrow> length shown = 114)))"
  by (simp add: updateInfoString_def Let_def QString_left_def QString_right_def)

theorem updateInfoString_format_witness:
  "isWaitingForLoader (state (loadingAt threeFiles cacheABC 0)) \<and>
   updateInfoString (loadingAt threeFiles cacheABC 0)
     = Inr (emit (SetInfoString ''[ 1 / 3 ]   '') (loadingAt threeFiles cacheABC 0)) \<and>
   \<not> isWaitingForLoader (state (coreAt threeFiles cacheABC 0)) \<and>
   length (name imageA) = 5 \<and>
   updateInfoString (coreAt threeFiles cacheABC 0)
     = Inr (emit (SetInfoString ''[ 1 / 3 ]   a.png  (640 x 480  12 KB)'')
         (coreAt threeFiles cacheABC 0)) \<and>
   \<not> isWaitingForLoader (state longCore) \<and>
   length (name imageLong) = 108 \<and>
   updateInfoString longCore
     = Inr (emit (SetInfoString
         ''[ 1 / 1 ]   01234567890123456789012345678901234567890123456789012345678901234567890123456789012345678901234 (...) 6789_end.png  (1920 x 1080  2048 KB)'')
         longCore)"
proof -
  let ?w = "loadingAt threeFiles cacheABC 0"
  let ?s = "coreAt threeFiles cacheABC 0"
  note defs = loadingAt_def coreAt_def threeFiles_def listing_def cacheABC_def cacheOf_def
    cache_get_def longCore_def
  have w: "isWaitingForLoader (state ?w)" "currentIndex (state ?w) = 0"
    "fileCount (dirManager ?w) = 3"
    by (simp_all add: defs)
  have s: "\<not> isWaitingForLoader (state ?s)" "currentIndex (state ?s) = 0"
    "fileCount (dirManager ?s) = 3"
    "cache_get (cache ?s) (fileNameAt (dirManager ?s) (currentIndex (state ?s))) = Some imageA"
    by (simp_all add: defs)
  have l: "\<not> isWaitingForLoader (state longCore)" "currentIndex (state longCore) = 0"
    "fileCount (dirManager longCore) = 1"
    "cache_get (cache longCore) (fileNameAt (dirManager longCore) (currentIndex (state longCore)))
       = Some imageLong"
    by (simp_all add: defs)
  have a: "name imageA = ''a.png''" "width imageA = 640" "height imageA = 480"
    "fileSize imageA = 12"
    by (simp_all add: imageA_def)
  have b: "name imageLong = longName" "width imageLong = 1920" "height imageLong = 1080"
    "fileSize imageLong = 2048"
    by (simp_all add: imageLong_def)
  have len: "length longName = 108"
    by (simp add: longName_def)
  have cut: "take 95 longName = ''01234567890123456789012345678901234567890123456789012345678901234567890123456789012345678901234''"
    "drop 96 longName = ''6789_end.png''"
    by (simp_all add: longName_def)
  from updateInfoString_format [of ?w] w
  have "updateInfoString ?w = Inr (emit (SetInfoString ''[ 1 / 3 ]   '') ?w)"
    by (simp add: QString_number_examples)
  moreover from updateInfoString_format [of ?s imageA] s
  have "updateInfoString ?s
     = Inr (emit (SetInfoString ''[ 1 / 3 ]   a.png  (640 x 480  12 KB)'') ?s)"
    by (simp add: a QString_number_examples)
  moreover from updateInfoString_format [of longCore imageLong] l
  have "updateInfoString longCore
     = Inr (emit (SetInfoString
         ''[ 1 / 1 ]   01234567890123456789012345678901234567890123456789012345678901234567890123456789012345678901234 (...) 6789_end.png  (1920 x 1080  2048 KB)'')
         longCore)"
    by (simp add: b len cut QString_number_examples)
  ultimately show ?thesis
    using w s l a b len by simp
qed

section \<open>The two loads by index\<close>



end
